theory Spec2Isabelle
  imports Complex_Main
begin

section \<open>The LMSR market scripts \<^verbatim>\<open>multioption.py\<close> and \<^verbatim>\<open>single.py\<close>\<close>

text \<open>
  Both scripts price a prediction market with the logarithmic market scoring rule.
  \<^verbatim>\<open>multioption.py\<close> handles a list of options, \<^verbatim>\<open>single.py\<close> the two choices
  \<^verbatim>\<open>'yes'\<close> and \<^verbatim>\<open>'no'\<close>. The two modules use the same function names, so the
  definitions below carry the module as a prefix (\<open>multi_\<close>, \<open>single_\<close>).

  Numbers: Python's \<^verbatim>\<open>int\<close> and \<^verbatim>\<open>float\<close> values are modelled by \<^typ>\<open>real\<close>, with exact
  arithmetic. Rounding, underflow and \<^verbatim>\<open>inf\<close>/\<^verbatim>\<open>nan\<close> are not modelled. The one
  check of the float range that Python turns into an exception, the \<^verbatim>\<open>OverflowError\<close>
  of \<^verbatim>\<open>math.exp\<close>, is the parameter \<open>ex\<close> of the definitions that call \<^verbatim>\<open>math.exp\<close>:
  \<open>math_exp\<close> is the exact exponential, \<open>math_exp_float\<close> adds the range check.

  Dictionaries are maps \<^typ>\<open>string \<rightharpoonup> real\<close>; the keys of a dictionary built by a
  comprehension over a list are the distinct elements of that list.

  Printing is not modelled: the values a function prints are fields of the record it
  returns. The fields of the records carry a prefix (\<open>c_\<close>, \<open>t_\<close>, \<open>m_\<close>, \<open>r_\<close>,
  \<open>s_\<close>, \<open>p_\<close>, \<open>sm_\<close>), so that the local variables keep the names of the source.
\<close>

subsection \<open>Python primitives\<close>

datatype error = ValueError | KeyError | ZeroDivisionError | OverflowError

type_synonym dict = "string \<rightharpoonup> real"

text \<open>\<^verbatim>\<open>d[k]\<close> raises \<^verbatim>\<open>KeyError\<close> for a missing key.\<close>

definition getitem :: "dict \<Rightarrow> string \<Rightarrow> error + real" where
  "getitem d k = (case d k of None \<Rightarrow> Inl KeyError | Some v \<Rightarrow> Inr v)"

text \<open>\<^verbatim>\<open>x / y\<close> raises \<^verbatim>\<open>ZeroDivisionError\<close> for \<^verbatim>\<open>y == 0\<close>.\<close>

definition truediv :: "real \<Rightarrow> real \<Rightarrow> error + real" where
  "truediv x y = (if y = 0 then Inl ZeroDivisionError else Inr (x / y))"

text \<open>\<^verbatim>\<open>math.log(x)\<close> raises \<^verbatim>\<open>ValueError\<close> (math domain error) for \<^verbatim>\<open>x <= 0\<close>.\<close>

definition math_log :: "real \<Rightarrow> error + real" where
  "math_log x = (if x \<le> 0 then Inl ValueError else Inr (ln x))"

text \<open>\<^verbatim>\<open>math.exp(x)\<close> in exact arithmetic: it always returns.\<close>

definition math_exp :: "real \<Rightarrow> error + real" where
  "math_exp x = Inr (exp x)"



text \<open>
  Sequencing: an exception raised by a step ends the computation, a value returned by
  it is passed on to the rest.
\<close>

definition ebind :: "error + 'a \<Rightarrow> ('a \<Rightarrow> error + 'b) \<Rightarrow> error + 'b" where
  "ebind m f = (case m of Inl e \<Rightarrow> Inl e | Inr x \<Rightarrow> f x)"

text \<open>
  A dictionary comprehension \<^verbatim>\<open>{opt: f(opt) for opt in options}\<close>: the entries are
  stored in the order of the list, a repeated key overwrites its entry, and the first
  exception raised by \<^verbatim>\<open>f\<close> ends the comprehension. \<open>acc\<close> is the dictionary built
  so far.
\<close>

fun dict_comp :: "(string \<Rightarrow> error + real) \<Rightarrow> string list \<Rightarrow> dict \<Rightarrow> error + dict" where
  "dict_comp f [] acc = Inr acc"
| "dict_comp f (opt # opts) acc =
     ebind (f opt) (\<lambda>v. dict_comp f opts (acc(opt \<mapsto> v)))"

text \<open>
  The keys of a dictionary built from the list \<open>options\<close>, in insertion order: each
  option once, at the place of its first occurrence.
\<close>

fun dict_keys :: "string list \<Rightarrow> string list" where
  "dict_keys [] = []"
| "dict_keys (k # ks) = k # removeAll k (dict_keys ks)"

text \<open>\<^verbatim>\<open>sum(d.values())\<close> for a dictionary \<open>d\<close> whose keys are \<open>dict_keys options\<close>.\<close>

definition sum_values :: "dict \<Rightarrow> string list \<Rightarrow> real" where
  "sum_values d options = sum_list (map (\<lambda>k. the (d k)) (dict_keys options))"

subsection \<open>\<^verbatim>\<open>multioption.py\<close>: \<^verbatim>\<open>run_calculation\<close>\<close>

text \<open>
  Lines 63, 76 and 120:
  \<^verbatim>\<open>{opt: math.exp(quantities[opt] / b) for opt in options}\<close>.
\<close>

definition exp_values :: "(real \<Rightarrow> error + real) \<Rightarrow> dict \<Rightarrow> real \<Rightarrow> string list \<Rightarrow> error + dict" where
  "exp_values ex quantities b options =
     dict_comp (\<lambda>opt. ebind (getitem quantities opt) (\<lambda>q. ebind (truediv q b) ex))
       options Map.empty"

text \<open>
  Lines 66 and 122:
  \<^verbatim>\<open>{opt: exp_values[opt] / denominator for opt in options}\<close>.
\<close>

definition price_values :: "dict \<Rightarrow> real \<Rightarrow> string list \<Rightarrow> error + dict" where
  "price_values evs denominator options =
     dict_comp (\<lambda>opt. ebind (getitem evs opt) (\<lambda>v. truediv v denominator))
       options Map.empty"

text \<open>
  The values \<^verbatim>\<open>run_calculation\<close> computes. The source returns
  \<^verbatim>\<open>(quantities_new, trade_cost)\<close> and prints the prices and the two costs.
\<close>

record calculation =
  c_prices :: dict
  c_cost_before :: real
  c_cost_after :: real
  c_trade_cost :: real
  c_quantities_new :: dict

definition multi_run_calculation_with ::
  "(real \<Rightarrow> error + real) \<Rightarrow> dict \<Rightarrow> string \<times> real \<Rightarrow> real \<Rightarrow> string list \<Rightarrow> error + calculation" where
  "multi_run_calculation_with ex quantities bet b options =
     (case bet of (choice, shares) \<Rightarrow>
      if choice \<notin> set options then Inl ValueError
      else
      ebind (exp_values ex quantities b options) (\<lambda>evs.
      let denominator = sum_values evs options in
      ebind (price_values evs denominator options) (\<lambda>prices.
      ebind (math_log denominator) (\<lambda>l.
      let cost_before = b * l in
      ebind (getitem quantities choice) (\<lambda>q.
      let quantities_new = quantities(choice \<mapsto> q + shares) in
      ebind (exp_values ex quantities_new b options) (\<lambda>evs_new.
      let denominator_new = sum_values evs_new options in
      ebind (math_log denominator_new) (\<lambda>l_new.
      let cost_after = b * l_new in
      Inr \<lparr>c_prices = prices, c_cost_before = cost_before, c_cost_after = cost_after,
           c_trade_cost = cost_after - cost_before,
           c_quantities_new = quantities_new\<rparr>)))))))"

definition multi_run_calculation ::
  "dict \<Rightarrow> string \<times> real \<Rightarrow> real \<Rightarrow> string list \<Rightarrow> error + calculation" where
  "multi_run_calculation = multi_run_calculation_with math_exp"


subsection \<open>\<^verbatim>\<open>multioption.py\<close>: \<^verbatim>\<open>run_market\<close>\<close>

text \<open>An entry of the list \<^verbatim>\<open>trades\<close>: a dictionary with the keys
  \<^verbatim>\<open>'choice'\<close>, \<^verbatim>\<open>'shares'\<close> and \<^verbatim>\<open>'cost'\<close>.\<close>

record trade =
  t_choice :: string
  t_shares :: real
  t_cost :: real

text \<open>Lines 106 to 113: the loop over \<^verbatim>\<open>bet_series\<close>, on the state
  \<^verbatim>\<open>(quantities, trades)\<close>.\<close>

fun multi_trade_loop ::
  "(string \<times> real) list \<Rightarrow> real \<Rightarrow> string list \<Rightarrow> dict \<times> trade list \<Rightarrow> error + dict \<times> trade list" where
  "multi_trade_loop [] b options (quantities, trades) = Inr (quantities, trades)"
| "multi_trade_loop (bet # bets) b options (quantities, trades) =
     ebind (multi_run_calculation quantities bet b options) (\<lambda>c.
       multi_trade_loop bets b options
         (c_quantities_new c,
          trades @ [\<lparr>t_choice = fst bet, t_shares = snd bet, t_cost = c_trade_cost c\<rparr>]))"





subsection \<open>\<^verbatim>\<open>multioption.py\<close>: \<^verbatim>\<open>run_calculation\<close> on a store\<close>






subsection \<open>\<^verbatim>\<open>single.py\<close>: \<^verbatim>\<open>run_calculation\<close>\<close>

record single_calculation =
  s_price_yes :: real
  s_price_no :: real
  s_cost_before :: real
  s_cost_after :: real
  s_trade_cost :: real
  s_q_yes_new :: real
  s_q_no_new :: real

definition single_run_calculation_with ::
  "(real \<Rightarrow> error + real) \<Rightarrow> real \<Rightarrow> real \<Rightarrow> string \<times> real \<Rightarrow> real \<Rightarrow> error + single_calculation" where
  "single_run_calculation_with ex q_yes q_no bet b =
     (case bet of (choice, shares) \<Rightarrow>
      ebind (ebind (truediv q_yes b) ex) (\<lambda>exp_yes.
      ebind (ebind (truediv q_no b) ex) (\<lambda>exp_no.
      let denominator = exp_yes + exp_no in
      ebind (truediv exp_yes denominator) (\<lambda>price_yes.
      ebind (truediv exp_no denominator) (\<lambda>price_no.
      ebind (math_log (exp_yes + exp_no)) (\<lambda>l.
      let cost_before = b * l in
      let q_yes_new = q_yes + (if choice = ''yes'' then shares else 0) in
      let q_no_new = q_no + (if choice = ''no'' then shares else 0) in
      ebind (ebind (truediv q_yes_new b) ex) (\<lambda>exp_yes_new.
      ebind (ebind (truediv q_no_new b) ex) (\<lambda>exp_no_new.
      ebind (math_log (exp_yes_new + exp_no_new)) (\<lambda>l_new.
      let cost_after = b * l_new in
      Inr \<lparr>s_price_yes = price_yes, s_price_no = price_no, s_cost_before = cost_before,
           s_cost_after = cost_after, s_trade_cost = cost_after - cost_before,
           s_q_yes_new = q_yes_new, s_q_no_new = q_no_new\<rparr>)))))))))"

definition single_run_calculation ::
  "real \<Rightarrow> real \<Rightarrow> string \<times> real \<Rightarrow> real \<Rightarrow> error + single_calculation" where
  "single_run_calculation = single_run_calculation_with math_exp"


subsection \<open>\<^verbatim>\<open>single.py\<close>: \<^verbatim>\<open>run_market\<close>\<close>

text \<open>Lines 101 to 108: the loop over \<^verbatim>\<open>bet_series\<close>, on the state
  \<^verbatim>\<open>(q_yes, q_no, trades)\<close>.\<close>

fun single_trade_loop ::
  "(string \<times> real) list \<Rightarrow> real \<Rightarrow> real \<times> real \<times> trade list \<Rightarrow> error + real \<times> real \<times> trade list" where
  "single_trade_loop [] b (q_yes, q_no, trades) = Inr (q_yes, q_no, trades)"
| "single_trade_loop (bet # bets) b (q_yes, q_no, trades) =
     ebind (single_run_calculation q_yes q_no bet b) (\<lambda>c.
       single_trade_loop bets b
         (s_q_yes_new c, s_q_no_new c,
          trades @ [\<lparr>t_choice = fst bet, t_shares = snd bet, t_cost = s_trade_cost c\<rparr>]))"

text \<open>The values printed for one trade (lines 142 to 149).\<close>

record single_payout =
  p_payout_if_yes :: real
  p_payout_if_no :: real
  p_profit_if_yes :: real
  p_profit_if_no :: real

text \<open>Lines 135 to 149: the loop over \<^verbatim>\<open>trades\<close>, on the state
  \<^verbatim>\<open>(total_cost, total_payout_if_yes, total_payout_if_no)\<close>; \<open>report\<close> collects the
  values printed for each trade.\<close>

fun single_settle_loop ::
  "trade list \<Rightarrow> real \<times> real \<times> real \<times> single_payout list
     \<Rightarrow> real \<times> real \<times> real \<times> single_payout list" where
  "single_settle_loop [] (total_cost, total_payout_if_yes, total_payout_if_no, report) =
     (total_cost, total_payout_if_yes, total_payout_if_no, report)"
| "single_settle_loop (t # ts) (total_cost, total_payout_if_yes, total_payout_if_no, report) =
     (let payout_if_yes = (if t_choice t = ''yes'' then t_shares t * 1 else 0);
          payout_if_no = (if t_choice t = ''no'' then t_shares t * 1 else 0)
      in single_settle_loop ts
           (total_cost + t_cost t, total_payout_if_yes + payout_if_yes,
            total_payout_if_no + payout_if_no,
            report @ [\<lparr>p_payout_if_yes = payout_if_yes, p_payout_if_no = payout_if_no,
                        p_profit_if_yes = payout_if_yes - t_cost t,
                        p_profit_if_no = payout_if_no - t_cost t\<rparr>]))"

record single_market =
  sm_q_yes :: real
  sm_q_no :: real
  sm_trades :: "trade list"
  sm_final_price_yes :: real
  sm_final_price_no :: real
  sm_per_trade :: "single_payout list"
  sm_total_cost :: real
  sm_total_payout_if_yes :: real
  sm_total_payout_if_no :: real
  sm_net_profit_if_yes :: real
  sm_net_profit_if_no :: real

definition single_run_market :: "(string \<times> real) list \<Rightarrow> real \<Rightarrow> error + single_market" where
  "single_run_market bet_series b =
     ebind (single_trade_loop bet_series b (0, 0, [])) (\<lambda>(q_yes, q_no, trades).
     ebind (ebind (truediv q_yes b) math_exp) (\<lambda>exp_yes.
     ebind (ebind (truediv q_no b) math_exp) (\<lambda>exp_no.
     let denominator = exp_yes + exp_no in
     ebind (truediv exp_yes denominator) (\<lambda>final_price_yes.
     ebind (truediv exp_no denominator) (\<lambda>final_price_no.
     case single_settle_loop trades (0, 0, 0, []) of
       (total_cost, total_payout_if_yes, total_payout_if_no, report) \<Rightarrow>
     Inr \<lparr>sm_q_yes = q_yes, sm_q_no = q_no, sm_trades = trades,
          sm_final_price_yes = final_price_yes, sm_final_price_no = final_price_no,
          sm_per_trade = report, sm_total_cost = total_cost,
          sm_total_payout_if_yes = total_payout_if_yes,
          sm_total_payout_if_no = total_payout_if_no,
          sm_net_profit_if_yes = total_payout_if_yes - total_cost,
          sm_net_profit_if_no = total_payout_if_no - total_cost\<rparr>)))))"

subsection \<open>The quantities of the specification\<close>

text \<open>The sum \<open>\<Sum>\<^sub>j e\<^bsup>q\<^sub>j / b\<^esup>\<close> over the declared options.\<close>

definition lmsr_sum :: "dict \<Rightarrow> real \<Rightarrow> string list \<Rightarrow> real" where
  "lmsr_sum q b options = (\<Sum>k \<in> set options. exp (the (q k) / b))"





text \<open>The quantity vector of a new market: \<open>0\<close> for each declared option.\<close>

definition zeros :: "string list \<Rightarrow> dict" where
  "zeros options = (\<lambda>k. if k \<in> set options then Some 0 else None)"



section \<open>Properties\<close>

subsection \<open>Sequencing and dictionaries\<close>

lemma ebind_Inr [simp]: "ebind (Inr x) f = f x"
  by (simp add: ebind_def)

lemma ebind_Inl [simp]: "ebind (Inl e) f = Inl e"
  by (simp add: ebind_def)


lemma set_dict_keys [simp]: "set (dict_keys xs) = set xs"
  by (induction xs) auto


lemma dict_keys_distinct: "distinct xs \<Longrightarrow> dict_keys xs = xs"
  by (induction xs) (auto simp: removeAll_id)


subsection \<open>\<^verbatim>\<open>multioption.py\<close>: what \<^verbatim>\<open>run_calculation\<close> returns\<close>







subsection \<open>\<^verbatim>\<open>multioption.py\<close>: the settlement loops\<close>




subsection \<open>The cost function\<close>

lemma lmsr_sum_update:
  assumes "choice \<in> set options"
  shows "lmsr_sum (q(choice \<mapsto> v)) b options =
           lmsr_sum q b options - exp (the (q choice) / b) + exp (v / b)"
proof -
  have f: "finite (set options)" by simp
  have r: "(\<Sum>k \<in> set options - {choice}. exp (the ((q(choice \<mapsto> v)) k) / b)) =
        (\<Sum>k \<in> set options - {choice}. exp (the (q k) / b))"
    by (rule sum.cong) auto
  show ?thesis
    unfolding lmsr_sum_def
    by (simp add: sum.remove [OF f assms] r)
qed








subsection \<open>\<^verbatim>\<open>multioption.py\<close>: the trade loop and \<^verbatim>\<open>run_market\<close>\<close>






subsection \<open>\<^verbatim>\<open>single.py\<close>: what \<^verbatim>\<open>run_calculation\<close> returns\<close>

lemma single_run_calculation_exact:
  assumes "b \<noteq> 0"
  shows "single_run_calculation q_yes q_no (choice, shares) b =
     Inr \<lparr>s_price_yes = exp (q_yes / b) / (exp (q_yes / b) + exp (q_no / b)),
          s_price_no = exp (q_no / b) / (exp (q_yes / b) + exp (q_no / b)),
          s_cost_before = b * ln (exp (q_yes / b) + exp (q_no / b)),
          s_cost_after = b * ln (exp ((q_yes + (if choice = ''yes'' then shares else 0)) / b)
                                 + exp ((q_no + (if choice = ''no'' then shares else 0)) / b)),
          s_trade_cost = b * ln (exp ((q_yes + (if choice = ''yes'' then shares else 0)) / b)
                                 + exp ((q_no + (if choice = ''no'' then shares else 0)) / b))
                         - b * ln (exp (q_yes / b) + exp (q_no / b)),
          s_q_yes_new = q_yes + (if choice = ''yes'' then shares else 0),
          s_q_no_new = q_no + (if choice = ''no'' then shares else 0)\<rparr>"
proof -
  have p: "\<And>x y::real. \<not> exp x + exp y \<le> 0" "\<And>x y::real. exp x + exp y \<noteq> 0"
    using exp_gt_zero by (smt (verit, best))+
  show ?thesis
    unfolding single_run_calculation_def single_run_calculation_with_def
    using assms by (simp add: truediv_def math_exp_def math_log_def p Let_def)
qed



subsection \<open>Prices and cost of the specification\<close>




subsection \<open>\<^verbatim>\<open>single.py\<close>: what \<^verbatim>\<open>run_market\<close> returns\<close>





subsection \<open>\<^verbatim>\<open>multioption.py\<close>: what \<^verbatim>\<open>run_calculation\<close> does to the store\<close>



subsection \<open>\<^verbatim>\<open>math.exp\<close> with the range check\<close>






subsection \<open>Bounds on the exponential, and the example of the docstring\<close>






subsection \<open>The max-shift form of the cost\<close>







section \<open>The claims\<close>

subsection \<open>C1: the evaluation of log-sum-exp\<close>




subsection \<open>C2: worst-case loss bound\<close>



subsection \<open>C3: trade costing\<close>



subsection \<open>C4: the prices form a probability distribution\<close>



subsection \<open>C5: a bet on an undeclared outcome\<close>

text \<open>
  C5. \<^verbatim>\<open>multioption.py\<close> rejects a bet on \<^verbatim>\<open>'nonexistent'\<close> with a \<^verbatim>\<open>ValueError\<close>
  before anything is computed, and the loop of \<^verbatim>\<open>run_market\<close> ends with that
  exception. \<^verbatim>\<open>single.py\<close> has no such check: the same bet is accepted there,
  the quantities stay as they are, the trade cost is \<open>0\<close>, and the loop of
  \<^verbatim>\<open>run_market\<close> appends the bet to \<^verbatim>\<open>trades\<close>.
\<close>

theorem unknown_outcome_binary:
  "(\<exists>c. single_run_calculation 0 0 (''nonexistent'', 5) 10 = Inr c
        \<and> s_trade_cost c = 0 \<and> s_q_yes_new c = 0 \<and> s_q_no_new c = 0)
   \<and> (\<exists>t. single_trade_loop [(''nonexistent'', 5)] 10 (0, 0, []) = Inr (0, 0, [t])
        \<and> t_choice t = ''nonexistent'' \<and> t_shares t = 5 \<and> t_cost t = 0)
   \<and> multi_run_calculation (zeros [''yes'', ''no'']) (''nonexistent'', 5) 10 [''yes'', ''no'']
        = Inl ValueError
   \<and> multi_trade_loop [(''nonexistent'', 5)] 10 [''yes'', ''no''] (zeros [''yes'', ''no''], [])
        = Inl ValueError"
  by (simp add: single_run_calculation_exact multi_run_calculation_def
      multi_run_calculation_with_def)

subsection \<open>C6: settlement\<close>



subsection \<open>C7: the cost is monotone, a buy costs between 0 and the number of shares\<close>



subsection \<open>C8: the binary scenario\<close>

text \<open>
  C8. \<^verbatim>\<open>single.py\<close> with \<open>b = 10\<close> and the bets \<^verbatim>\<open>[('yes', 5), ('no', 3), ('yes', 5)]\<close>
  ends with \<open>q_yes = 10\<close> and \<open>q_no = 3\<close>, the final price of \<^verbatim>\<open>'yes'\<close> is
  \<open>e\<^sup>1 / (e\<^sup>1 + e\<^bsup>0.3\<^esup>)\<close>, and the total payout if \<^verbatim>\<open>'yes'\<close> wins is \<open>10\<close>.
\<close>

theorem binary_scenario:
  "\<exists>m. single_run_market [(''yes'', 5), (''no'', 3), (''yes'', 5)] 10 = Inr m
       \<and> sm_q_yes m = 10 \<and> sm_q_no m = 3
       \<and> sm_final_price_yes m = exp 1 / (exp 1 + exp (3 / 10))
       \<and> sm_total_payout_if_yes m = 10"
proof -
  have p: "\<And>x y::real. exp x + exp y \<noteq> 0"
    using exp_gt_zero by (smt (verit, best))
  show ?thesis
    unfolding single_run_market_def
    by (simp add: single_run_calculation_exact truediv_def math_exp_def p Let_def)
qed

subsection \<open>C9: quoting has no side effect\<close>



subsection \<open>C10: a trade of zero shares\<close>



end
